theory Spec2Isabelle
  imports Main
begin

section \<open>Shenandoah assertions: the data the checks read\<close>

text \<open>
  The development embeds \<^verbatim>\<open>src/hotspot/share/gc/shenandoah/shenandoahAsserts.cpp\<close>.
  Pointers (\<^verbatim>\<open>oop\<close>, \<^verbatim>\<open>void*\<close>, \<^verbatim>\<open>ShenandoahHeapRegion*\<close>,
  \<^verbatim>\<open>BoolObjectClosure*\<close>) are addresses; no pointer arithmetic occurs in the file, so an
  address is a natural number and \<^verbatim>\<open>NULL\<close> is 0. Memory is a total store: reading through
  a pointer that the C++ must not dereference yields whatever the store holds there.
\<close>

type_synonym addr = nat

abbreviation NULL :: addr where
  "NULL \<equiv> 0"

text \<open>
  \<^verbatim>\<open>enum SafeLevel\<close> is declared in the header, which is not part of the sources at hand.
  Modelled from the spec: the safety tier is ordered, lowest to highest, Unknown, ObjectSafe,
  ObjectAndForwardeeSafe, AllSafe; the source names them \<^verbatim>\<open>_safe_unknown\<close>,
  \<^verbatim>\<open>_safe_oop\<close>, \<^verbatim>\<open>_safe_oop_fwd\<close> and \<^verbatim>\<open>_safe_all\<close> and compares them with
  \<^verbatim>\<open>>=\<close> and \<^verbatim>\<open>==\<close>.
\<close>

datatype SafeLevel = safe_unknown | safe_oop | safe_oop_fwd | safe_all

fun level_rank :: "SafeLevel \<Rightarrow> nat" where
  "level_rank safe_unknown = 0"
| "level_rank safe_oop = 1"
| "level_rank safe_oop_fwd = 2"
| "level_rank safe_all = 3"

definition level_ge :: "SafeLevel \<Rightarrow> SafeLevel \<Rightarrow> bool" where
  "level_ge a b = (level_rank b \<le> level_rank a)"

text \<open>What the methods of a \<^verbatim>\<open>ShenandoahHeapRegion\<close> return when the file calls them.\<close>

record region =
  region_number :: nat
  is_active :: bool
  is_humongous_start :: bool
  is_humongous_continuation :: bool
  print_on :: string

text \<open>
  Everything the file reads from the VM, as one snapshot: the queries of \<^verbatim>\<open>ShenandoahHeap\<close>,
  the region objects behind region pointers, the forwarding word read by
  \<^verbatim>\<open>BrooksPointer::get_raw_unchecked\<close>, the object header (\<^verbatim>\<open>klass()\<close>, \<^verbatim>\<open>size()\<close>),
  the connection matrix, the reference processor, and the constants and flags whose
  declarations lie outside the file. Sizes and region indices are \<^verbatim>\<open>size_t\<close> in the source;
  \<^verbatim>\<open>obj->size()\<close> is an \<^verbatim>\<open>int\<close> and region indices are bounded by the region count, so
  the sums and the product in \<^verbatim>\<open>assert_in_correct_region\<close> stay far below \<open>2 ^ 64\<close> and
  are modelled on natural numbers.
\<close>

record heap =
  is_in :: "addr \<Rightarrow> bool"
  heap_region_containing :: "addr \<Rightarrow> addr"
  heap_region_index_containing :: "addr \<Rightarrow> nat"
  regions_get :: "nat \<Rightarrow> addr"
  region_at :: "addr \<Rightarrow> region"
  allocated_after_complete_mark_start :: "addr \<Rightarrow> bool"
  allocated_after_next_mark_start :: "addr \<Rightarrow> bool"
  is_marked_complete :: "addr \<Rightarrow> bool"
  is_marked_next :: "addr \<Rightarrow> bool"
  in_collection_set :: "addr \<Rightarrow> bool"
  is_full_gc_move_in_progress :: bool
  is_connected :: "nat \<Rightarrow> nat \<Rightarrow> bool"
  get_raw_unchecked :: "addr \<Rightarrow> addr"
  klass :: "addr \<Rightarrow> addr"
  external_name :: "addr \<Rightarrow> string"
  obj_size :: "addr \<Rightarrow> nat"
  os_print_location :: "addr \<Rightarrow> string"
  is_alive_non_header :: addr
  is_alive_closure :: addr
  addr_of_is_alive :: addr
  addr_of_forwarded_is_alive :: addr
  UseShenandoahMatrix :: bool
  word_size :: nat
  humongous_threshold_words :: nat
  HeapWordSize :: nat
  required_regions :: "nat \<Rightarrow> nat"

section \<open>The message buffer\<close>

text \<open>
  A \<^verbatim>\<open>ShenandoahMessageBuffer\<close> is the list of the \<^verbatim>\<open>append\<close> calls made on it, in order.
  Each constructor stands for one format string of the source together with its arguments;
  a boolean argument is the condition whose outcome selects the empty string (\<open>True\<close>) or
  \<^verbatim>\<open>"not"\<close> (\<open>False\<close>). Literal text is kept as it is, newlines included.
\<close>

datatype msg_line =
    Heading string string
  | RpHeading string
  | Txt string
  | InteriorLocation addr
  | ObjKlass addr addr string
  | AllocAfterCompleteMarkStart bool
  | AllocAfterNextMarkStart bool
  | MarkedComplete bool
  | MarkedNext bool
  | InCollectionSet bool
  | RegionLine string
  | LocationLine string
  | SafePrint addr
  | Connected string bool
  | RpActual addr
  | RpExpected addr
  | RpIsAlive addr
  | RpForwardedIsAlive addr

type_synonym ShenandoahMessageBuffer = "msg_line list"

definition msg_append :: "ShenandoahMessageBuffer \<Rightarrow> msg_line \<Rightarrow> ShenandoahMessageBuffer" where
  "msg_append msg l = msg @ [l]"

text \<open>
  \<^verbatim>\<open>report_vm_error\<close> belongs to the VM's error reporting, outside the sources at hand.
  Modelled from the spec: the assembled message is handed to the process's fatal-error path
  together with source file and line, and the call does not return. The value below is
  what is handed over.
\<close>

record vm_error =
  err_file :: string
  err_line :: int
  err_msg :: ShenandoahMessageBuffer

definition report_vm_error :: "string \<Rightarrow> int \<Rightarrow> ShenandoahMessageBuffer \<Rightarrow> vm_error" where
  "report_vm_error file line msg = \<lparr>err_file = file, err_line = line, err_msg = msg\<rparr>"

section \<open>The renderers\<close>

definition print_obj :: "heap \<Rightarrow> ShenandoahMessageBuffer \<Rightarrow> addr \<Rightarrow> ShenandoahMessageBuffer" where
  "print_obj h msg obj =
    (let r = heap_region_containing h obj;
         ss = print_on (region_at h r);
         msg = msg_append msg (ObjKlass obj (klass h obj) (external_name h (klass h obj)));
         msg = msg_append msg (AllocAfterCompleteMarkStart (allocated_after_complete_mark_start h obj));
         msg = msg_append msg (AllocAfterNextMarkStart (allocated_after_next_mark_start h obj));
         msg = msg_append msg (MarkedComplete (is_marked_complete h obj));
         msg = msg_append msg (MarkedNext (is_marked_next h obj));
         msg = msg_append msg (InCollectionSet (in_collection_set h obj))
     in msg_append msg (RegionLine ss))"

definition print_non_obj :: "heap \<Rightarrow> ShenandoahMessageBuffer \<Rightarrow> addr \<Rightarrow> ShenandoahMessageBuffer" where
  "print_non_obj h msg loc =
    (if is_in h loc then
       (let msg = msg_append msg (Txt ''  inside Java heap\<newline>'');
            r = heap_region_containing h loc;
            ss = print_on (region_at h r);
            msg = msg_append msg (InCollectionSet (in_collection_set h loc))
        in msg_append msg (RegionLine ss))
     else
       (let msg = msg_append msg (Txt ''  outside of Java heap\<newline>'');
            ss = os_print_location h loc
        in msg_append msg (LocationLine ss)))"

definition print_obj_safe :: "heap \<Rightarrow> ShenandoahMessageBuffer \<Rightarrow> addr \<Rightarrow> ShenandoahMessageBuffer" where
  "print_obj_safe h msg loc =
    (let msg = msg_append msg (SafePrint loc)
     in if is_in h loc then
          (let r = heap_region_containing h loc
           in if r \<noteq> NULL then msg_append msg (RegionLine (print_on (region_at h r))) else msg)
        else msg)"

subsection \<open>The blocks of \<^verbatim>\<open>print_failure\<close>, in source order\<close>

text \<open>Lines 92 to 103: the section "Referenced from".\<close>

definition pf_referenced_from ::
  "heap \<Rightarrow> addr \<Rightarrow> addr \<Rightarrow> bool \<Rightarrow> ShenandoahMessageBuffer \<Rightarrow> ShenandoahMessageBuffer" where
  "pf_referenced_from h interior_loc loc loc_in_heap msg0 =
    (let msg = msg_append msg0 (Txt ''Referenced from:\<newline>'');
         msg = (if interior_loc \<noteq> NULL then
                  (let msg = msg_append msg (InteriorLocation interior_loc)
                   in if loc_in_heap then print_obj h msg loc
                      else print_non_obj h msg interior_loc)
                else msg_append msg (Txt ''  no interior location recorded (probably a plain heap scan, or detached oop)\<newline>''))
     in msg_append msg (Txt ''\<newline>''))"

text \<open>Lines 105 to 111: the section "Object".\<close>

definition pf_object ::
  "heap \<Rightarrow> SafeLevel \<Rightarrow> addr \<Rightarrow> ShenandoahMessageBuffer \<Rightarrow> ShenandoahMessageBuffer" where
  "pf_object h level obj msg0 =
    (let msg = msg_append msg0 (Txt ''Object:\<newline>'');
         msg = (if level_ge level safe_oop then print_obj h msg obj
                else print_obj_safe h msg obj)
     in msg_append msg (Txt ''\<newline>''))"

text \<open>Lines 113 to 126: the section "Forwardee".\<close>

definition pf_forwardee ::
  "heap \<Rightarrow> SafeLevel \<Rightarrow> addr \<Rightarrow> ShenandoahMessageBuffer \<Rightarrow> ShenandoahMessageBuffer" where
  "pf_forwardee h level obj msg0 =
    (if level_ge level safe_oop then
       (let fwd = get_raw_unchecked h obj;
            msg = msg_append msg0 (Txt ''Forwardee:\<newline>'');
            msg = (if \<not> (obj = fwd) then
                     (if level_ge level safe_oop_fwd then print_obj h msg fwd
                      else print_obj_safe h msg fwd)
                   else msg_append msg (Txt ''  (the object itself)''))
        in msg_append msg (Txt ''\<newline>''))
     else msg0)"

text \<open>Lines 128 to 136: the section "Second forwardee".\<close>

definition pf_second_forwardee ::
  "heap \<Rightarrow> SafeLevel \<Rightarrow> addr \<Rightarrow> ShenandoahMessageBuffer \<Rightarrow> ShenandoahMessageBuffer" where
  "pf_second_forwardee h level obj msg0 =
    (if level_ge level safe_oop_fwd then
       (let fwd = get_raw_unchecked h obj;
            fwd2 = get_raw_unchecked h fwd
        in if \<not> (fwd = fwd2) then
             (let msg = msg_append msg0 (Txt ''Second forwardee:\<newline>'');
                  msg = print_obj_safe h msg fwd2
              in msg_append msg (Txt ''\<newline>''))
           else msg0)
     else msg0)"

text \<open>Lines 138 to 172: the section "Matrix connections".\<close>

definition pf_matrix ::
  "heap \<Rightarrow> SafeLevel \<Rightarrow> addr \<Rightarrow> addr \<Rightarrow> addr \<Rightarrow> bool \<Rightarrow> bool \<Rightarrow>
   ShenandoahMessageBuffer \<Rightarrow> ShenandoahMessageBuffer" where
  "pf_matrix h level obj interior_loc loc loc_in_heap interior_loc_in_heap msg0 =
    (if loc_in_heap \<and> UseShenandoahMatrix h \<and> level = safe_all then
       (let msg = msg_append msg0 (Txt ''Matrix connections:\<newline>'');
            fwd_to = get_raw_unchecked h obj;
            fwd_from = get_raw_unchecked h loc;
            from_idx = heap_region_index_containing h loc;
            to_idx = heap_region_index_containing h obj;
            fwd_from_idx = heap_region_index_containing h fwd_from;
            fwd_to_idx = heap_region_index_containing h fwd_to;
            msg = msg_append msg (Connected ''reference and object'' (is_connected h from_idx to_idx));
            msg = msg_append msg (Connected ''fwd(reference) and object'' (is_connected h fwd_from_idx to_idx));
            msg = msg_append msg (Connected ''reference and fwd(object)'' (is_connected h from_idx fwd_to_idx));
            msg = msg_append msg (Connected ''fwd(reference) and fwd(object)'' (is_connected h fwd_from_idx fwd_to_idx))
        in if interior_loc_in_heap then
             (let from_interior_idx = heap_region_index_containing h interior_loc;
                  msg = msg_append msg (Connected ''interior-reference and object'' (is_connected h from_interior_idx to_idx))
              in msg_append msg (Connected ''interior-reference and fwd(object)'' (is_connected h from_interior_idx fwd_to_idx)))
           else msg)
     else msg0)"

definition print_failure ::
  "heap \<Rightarrow> SafeLevel \<Rightarrow> addr \<Rightarrow> addr \<Rightarrow> addr \<Rightarrow> string \<Rightarrow> string \<Rightarrow> string \<Rightarrow> int \<Rightarrow> vm_error" where
  "print_failure h level obj interior_loc loc phase label file line =
    (let loc_in_heap = (loc \<noteq> NULL \<and> is_in h loc);
         interior_loc_in_heap = (interior_loc \<noteq> NULL \<and> is_in h interior_loc);
         msg = [Heading phase label];
         msg = pf_referenced_from h interior_loc loc loc_in_heap msg;
         msg = pf_object h level obj msg;
         msg = pf_forwardee h level obj msg;
         msg = pf_second_forwardee h level obj msg;
         msg = pf_matrix h level obj interior_loc loc loc_in_heap interior_loc_in_heap msg
     in report_vm_error file line msg)"

definition print_rp_failure :: "heap \<Rightarrow> string \<Rightarrow> addr \<Rightarrow> addr \<Rightarrow> string \<Rightarrow> int \<Rightarrow> vm_error" where
  "print_rp_failure h label actual expected file line =
    (let msg = [RpHeading label];
         msg = msg_append msg (RpActual actual);
         msg = msg_append msg (RpExpected expected);
         msg = msg_append msg (RpIsAlive (addr_of_is_alive h));
         msg = msg_append msg (RpForwardedIsAlive (addr_of_forwarded_is_alive h))
     in report_vm_error file line msg)"

section \<open>The checks\<close>

text \<open>
  A check either returns to its caller or calls a reporter, and a reporter does not return.
  The outcome of a check is therefore the first reporter call it makes, with the arguments
  of that call, or \<open>Returns\<close>. \<open>report_of\<close> runs the recorded call.
\<close>

datatype outcome =
    Returns
  | Calls_print_failure SafeLevel addr addr addr string string string int
  | Calls_print_rp_failure string addr addr string int

definition report_of :: "heap \<Rightarrow> outcome \<Rightarrow> vm_error option" where
  "report_of h out =
    (case out of
       Returns \<Rightarrow> None
     | Calls_print_failure level obj interior_loc loc phase label file line \<Rightarrow>
         Some (print_failure h level obj interior_loc loc phase label file line)
     | Calls_print_rp_failure label actual expected file line \<Rightarrow>
         Some (print_rp_failure h label actual expected file line))"

text \<open>Sequencing of two statements: the second runs only if the first returns.\<close>

definition andthen :: "outcome \<Rightarrow> outcome \<Rightarrow> outcome" where
  "andthen first rest = (case first of Returns \<Rightarrow> rest | _ \<Rightarrow> first)"

definition assert_in_heap :: "heap \<Rightarrow> addr \<Rightarrow> addr \<Rightarrow> string \<Rightarrow> int \<Rightarrow> outcome" where
  "assert_in_heap h interior_loc obj file line =
    (if \<not> is_in h obj then
       Calls_print_failure safe_unknown obj interior_loc NULL ''Shenandoah assert_in_heap failed''
         ''oop must point to a heap address'' file line
     else Returns)"

definition assert_correct :: "heap \<Rightarrow> addr \<Rightarrow> addr \<Rightarrow> string \<Rightarrow> int \<Rightarrow> outcome" where
  "assert_correct h interior_loc obj file line =
    andthen
      (if \<not> is_in h obj then
         Calls_print_failure safe_unknown obj interior_loc NULL ''Shenandoah assert_correct failed''
           ''oop must point to a heap address'' file line
       else Returns)
      (let fwd = get_raw_unchecked h obj in
       andthen
         (if \<not> is_in h fwd then
            Calls_print_failure safe_oop obj interior_loc NULL ''Shenandoah assert_correct failed''
              ''Forwardee must point to a heap address'' file line
          else Returns)
         (let is_forwarded = (\<not> (obj = fwd)) in
          andthen
            (if is_forwarded \<and> is_full_gc_move_in_progress h then
               Calls_print_failure safe_all obj interior_loc NULL ''Shenandoah assert_correct failed''
                 ''Non-trivial forwarding pointer during Full GC moves, probable bug.'' file line
             else Returns)
            (andthen
               (if is_forwarded \<and>
                   (heap_region_index_containing h fwd = heap_region_index_containing h obj) then
                  Calls_print_failure safe_all obj interior_loc NULL ''Shenandoah assert_correct failed''
                    ''Forwardee should be self, or another region'' file line
                else Returns)
               (if is_forwarded then
                  (let fwd2 = get_raw_unchecked h fwd in
                   if \<not> (fwd = fwd2) then
                     Calls_print_failure safe_all obj interior_loc NULL ''Shenandoah assert_correct failed''
                       ''Multiple forwardings'' file line
                   else Returns)
                else Returns))))"

text \<open>
  The \<^verbatim>\<open>for\<close> loop of \<^verbatim>\<open>assert_in_correct_region\<close> over the indices
  \<^verbatim>\<open>idx, ..., idx + num_regions - 1\<close>; the list holds the indices still to visit.
\<close>

fun chain_loop :: "heap \<Rightarrow> addr \<Rightarrow> addr \<Rightarrow> string \<Rightarrow> int \<Rightarrow> nat \<Rightarrow> nat list \<Rightarrow> outcome" where
  "chain_loop h interior_loc obj file line idx [] = Returns"
| "chain_loop h interior_loc obj file line idx (i # rest) =
    (let chain_reg = regions_get h i in
     andthen
       (if i = idx \<and> \<not> is_humongous_start (region_at h chain_reg) then
          Calls_print_failure safe_unknown obj interior_loc NULL ''Shenandoah assert_in_correct_region failed''
            ''Object must reside in humongous start'' file line
        else Returns)
       (andthen
          (if i \<noteq> idx \<and> \<not> is_humongous_continuation (region_at h chain_reg) then
             Calls_print_failure safe_oop obj interior_loc NULL ''Shenandoah assert_in_correct_region failed''
               ''Humongous continuation should be of proper size'' file line
           else Returns)
          (chain_loop h interior_loc obj file line idx rest)))"

definition assert_in_correct_region :: "heap \<Rightarrow> addr \<Rightarrow> addr \<Rightarrow> string \<Rightarrow> int \<Rightarrow> outcome" where
  "assert_in_correct_region h interior_loc obj file line =
    andthen (assert_correct h interior_loc obj file line)
      (let r = heap_region_containing h obj in
       andthen
         (if \<not> is_active (region_at h r) then
            Calls_print_failure safe_unknown obj interior_loc NULL ''Shenandoah assert_in_correct_region failed''
              ''Object must reside in active region'' file line
          else Returns)
         (let alloc_size = obj_size h obj + word_size h in
          if alloc_size > humongous_threshold_words h then
            (let idx = region_number (region_at h r);
                 num_regions = required_regions h (alloc_size * HeapWordSize h)
             in chain_loop h interior_loc obj file line idx [idx ..< idx + num_regions])
          else Returns))"

definition assert_forwarded :: "heap \<Rightarrow> addr \<Rightarrow> addr \<Rightarrow> string \<Rightarrow> int \<Rightarrow> outcome" where
  "assert_forwarded h interior_loc obj file line =
    andthen (assert_correct h interior_loc obj file line)
      (let fwd = get_raw_unchecked h obj in
       if obj = fwd then
         Calls_print_failure safe_all obj interior_loc NULL ''Shenandoah assert_forwarded failed''
           ''Object should be forwarded'' file line
       else Returns)"

definition assert_not_forwarded :: "heap \<Rightarrow> addr \<Rightarrow> addr \<Rightarrow> string \<Rightarrow> int \<Rightarrow> outcome" where
  "assert_not_forwarded h interior_loc obj file line =
    andthen (assert_correct h interior_loc obj file line)
      (let fwd = get_raw_unchecked h obj in
       if \<not> (obj = fwd) then
         Calls_print_failure safe_all obj interior_loc NULL ''Shenandoah assert_not_forwarded failed''
           ''Object should not be forwarded'' file line
       else Returns)"

definition assert_marked_complete :: "heap \<Rightarrow> addr \<Rightarrow> addr \<Rightarrow> string \<Rightarrow> int \<Rightarrow> outcome" where
  "assert_marked_complete h interior_loc obj file line =
    andthen (assert_correct h interior_loc obj file line)
      (if \<not> is_marked_complete h obj then
         Calls_print_failure safe_all obj interior_loc NULL ''Shenandoah assert_marked_complete failed''
           ''Object should be marked (complete)'' file line
       else Returns)"

definition assert_marked_next :: "heap \<Rightarrow> addr \<Rightarrow> addr \<Rightarrow> string \<Rightarrow> int \<Rightarrow> outcome" where
  "assert_marked_next h interior_loc obj file line =
    andthen (assert_correct h interior_loc obj file line)
      (if \<not> is_marked_next h obj then
         Calls_print_failure safe_all obj interior_loc NULL ''Shenandoah assert_marked_next failed''
           ''Object should be marked (next)'' file line
       else Returns)"

definition assert_not_in_cset :: "heap \<Rightarrow> addr \<Rightarrow> addr \<Rightarrow> string \<Rightarrow> int \<Rightarrow> outcome" where
  "assert_not_in_cset h interior_loc obj file line =
    andthen (assert_correct h interior_loc obj file line)
      (if in_collection_set h obj then
         Calls_print_failure safe_all obj interior_loc NULL ''Shenandoah assert_not_in_cset failed''
           ''Object should not be in collection set'' file line
       else Returns)"

definition assert_not_in_cset_loc :: "heap \<Rightarrow> addr \<Rightarrow> string \<Rightarrow> int \<Rightarrow> outcome" where
  "assert_not_in_cset_loc h interior_loc file line =
    (if in_collection_set h interior_loc then
       Calls_print_failure safe_unknown NULL interior_loc NULL ''Shenandoah assert_not_in_cset_loc failed''
         ''Interior location should not be in collection set'' file line
     else Returns)"

definition assert_rp_isalive_not_installed :: "heap \<Rightarrow> string \<Rightarrow> int \<Rightarrow> outcome" where
  "assert_rp_isalive_not_installed h file line =
    (if is_alive_non_header h \<noteq> NULL then
       Calls_print_rp_failure ''Shenandoah assert_rp_isalive_not_installed failed''
         (is_alive_non_header h) NULL file line
     else Returns)"

definition assert_rp_isalive_installed :: "heap \<Rightarrow> string \<Rightarrow> int \<Rightarrow> outcome" where
  "assert_rp_isalive_installed h file line =
    (if is_alive_non_header h \<noteq> is_alive_closure h then
       Calls_print_rp_failure ''Shenandoah assert_rp_isalive_installed failed''
         (is_alive_non_header h) (is_alive_closure h) file line
     else Returns)"

section \<open>The specification's reading of the checks and of the report\<close>

text \<open>
  The composite check as the specification words it: five conditions tried in a fixed
  order, the first that holds deciding the tier and the label of the report.
\<close>

definition check_correct_spec :: "heap \<Rightarrow> addr \<Rightarrow> addr \<Rightarrow> string \<Rightarrow> int \<Rightarrow> outcome" where
  "check_correct_spec h interior_loc obj file line =
    (let forward = get_raw_unchecked h obj;
         fail = (\<lambda>tier label. Calls_print_failure tier obj interior_loc NULL
                   ''Shenandoah assert_correct failed'' label file line)
     in if \<not> is_in h obj then fail safe_unknown ''oop must point to a heap address''
        else if \<not> is_in h forward then fail safe_oop ''Forwardee must point to a heap address''
        else if forward \<noteq> obj \<and> is_full_gc_move_in_progress h then
          fail safe_all ''Non-trivial forwarding pointer during Full GC moves, probable bug.''
        else if forward \<noteq> obj \<and>
                heap_region_index_containing h forward = heap_region_index_containing h obj then
          fail safe_all ''Forwardee should be self, or another region''
        else if forward \<noteq> obj \<and> get_raw_unchecked h forward \<noteq> forward then
          fail safe_all ''Multiple forwardings''
        else Returns)"

text \<open>
  Full detail: address, type-descriptor identity, allocation-epoch flags, both mark bits,
  collection-set membership and the containing region summary. Minimal detail: the address
  and, if resolvable, the containing region summary.
\<close>

definition full_detail :: "heap \<Rightarrow> addr \<Rightarrow> msg_line list" where
  "full_detail h a =
    [ObjKlass a (klass h a) (external_name h (klass h a)),
     AllocAfterCompleteMarkStart (allocated_after_complete_mark_start h a),
     AllocAfterNextMarkStart (allocated_after_next_mark_start h a),
     MarkedComplete (is_marked_complete h a),
     MarkedNext (is_marked_next h a),
     InCollectionSet (in_collection_set h a),
     RegionLine (print_on (region_at h (heap_region_containing h a)))]"

definition minimal_detail :: "heap \<Rightarrow> addr \<Rightarrow> msg_line list" where
  "minimal_detail h a =
    SafePrint a #
    (if is_in h a \<and> heap_region_containing h a \<noteq> NULL
     then [RegionLine (print_on (region_at h (heap_region_containing h a)))] else [])"

definition object_section_spec :: "heap \<Rightarrow> SafeLevel \<Rightarrow> addr \<Rightarrow> msg_line list" where
  "object_section_spec h tier obj =
    Txt ''Object:\<newline>'' #
    (if level_ge tier safe_oop then full_detail h obj else minimal_detail h obj) @
    [Txt ''\<newline>'']"

definition forwardee_section_spec :: "heap \<Rightarrow> SafeLevel \<Rightarrow> addr \<Rightarrow> msg_line list" where
  "forwardee_section_spec h tier obj =
    (if level_ge tier safe_oop then
       Txt ''Forwardee:\<newline>'' #
       (if get_raw_unchecked h obj = obj then [Txt ''  (the object itself)'']
        else if level_ge tier safe_oop_fwd then full_detail h (get_raw_unchecked h obj)
        else minimal_detail h (get_raw_unchecked h obj)) @
       [Txt ''\<newline>'']
     else [])"

definition second_forwardee_section_spec :: "heap \<Rightarrow> SafeLevel \<Rightarrow> addr \<Rightarrow> msg_line list" where
  "second_forwardee_section_spec h tier obj =
    (if level_ge tier safe_oop_fwd \<and>
        get_raw_unchecked h (get_raw_unchecked h obj) \<noteq> get_raw_unchecked h obj then
       Txt ''Second forwardee:\<newline>'' #
       minimal_detail h (get_raw_unchecked h (get_raw_unchecked h obj)) @
       [Txt ''\<newline>'']
     else [])"

text \<open>
  The header fields of an object that only the full-detail renderer reads, replaced by
  others: a report that is the same on both heaps has not read them.
\<close>

definition with_header_state ::
  "heap \<Rightarrow> (addr \<Rightarrow> addr) \<Rightarrow> (addr \<Rightarrow> string) \<Rightarrow> (addr \<Rightarrow> bool) \<Rightarrow> (addr \<Rightarrow> bool) \<Rightarrow> heap" where
  "with_header_state h k n mc mn =
    h\<lparr>klass := k, external_name := n, is_marked_complete := mc, is_marked_next := mn\<rparr>"

text \<open>
  The section "Matrix connections", gated by the referring location \<^verbatim>\<open>loc\<close>, the matrix
  flag and the tier; the interior location only adds its two pairs.
\<close>

definition matrix_section_spec :: "heap \<Rightarrow> SafeLevel \<Rightarrow> addr \<Rightarrow> addr \<Rightarrow> addr \<Rightarrow> msg_line list" where
  "matrix_section_spec h tier obj interior_loc loc =
    (if (loc \<noteq> NULL \<and> is_in h loc) \<and> UseShenandoahMatrix h \<and> tier = safe_all then
       (let ref = heap_region_index_containing h loc;
            fwd_ref = heap_region_index_containing h (get_raw_unchecked h loc);
            ob = heap_region_index_containing h obj;
            fwd_ob = heap_region_index_containing h (get_raw_unchecked h obj);
            interior = heap_region_index_containing h interior_loc
        in [Txt ''Matrix connections:\<newline>'',
            Connected ''reference and object'' (is_connected h ref ob),
            Connected ''fwd(reference) and object'' (is_connected h fwd_ref ob),
            Connected ''reference and fwd(object)'' (is_connected h ref fwd_ob),
            Connected ''fwd(reference) and fwd(object)'' (is_connected h fwd_ref fwd_ob)] @
           (if interior_loc \<noteq> NULL \<and> is_in h interior_loc then
              [Connected ''interior-reference and object'' (is_connected h interior ob),
               Connected ''interior-reference and fwd(object)'' (is_connected h interior fwd_ob)]
            else []))
     else [])"

text \<open>A reference-processor report holding just the actual and the expected closure.\<close>

definition minimal_rp_report :: "string \<Rightarrow> addr \<Rightarrow> addr \<Rightarrow> msg_line list" where
  "minimal_rp_report label actual expected = [RpHeading label, RpActual actual, RpExpected expected]"

text \<open>
  The humongous span of an object: the indices the loop visits, and the flag each index
  must carry.
\<close>

definition span_flag_ok :: "heap \<Rightarrow> nat \<Rightarrow> nat \<Rightarrow> bool" where
  "span_flag_ok h idx i =
    (if i = idx then is_humongous_start (region_at h (regions_get h i))
     else is_humongous_continuation (region_at h (regions_get h i)))"

section \<open>A concrete heap\<close>

text \<open>
  Six regions of 16 words, at addresses 16 to 111, region \<open>i\<close> behind the pointer \<open>100 + i\<close>.
  Region 1 is the collection set, region 3 starts a humongous chain continued by region 4,
  region 5 is inactive. The object at 20 is forwarded to 40; every other object is its own
  forwardee. The object at 48 has 30 words, which with the forwarding word makes 248 bytes,
  two regions of 128 bytes.
\<close>

definition region0 :: "addr \<Rightarrow> region" where
  "region0 p =
    \<lparr>region_number = p - 100, is_active = (p \<noteq> 105), is_humongous_start = (p = 103),
     is_humongous_continuation = (p = 104), print_on = ''region''\<rparr>"

definition heap0 :: heap where
  "heap0 =
    \<lparr>is_in = (\<lambda>a. 16 \<le> a \<and> a < 112),
     heap_region_containing = (\<lambda>a. 100 + a div 16),
     heap_region_index_containing = (\<lambda>a. a div 16),
     regions_get = (\<lambda>i. 100 + i),
     region_at = region0,
     allocated_after_complete_mark_start = (\<lambda>a. False),
     allocated_after_next_mark_start = (\<lambda>a. False),
     is_marked_complete = (\<lambda>a. a = 20),
     is_marked_next = (\<lambda>a. False),
     in_collection_set = (\<lambda>a. a div 16 = 1),
     is_full_gc_move_in_progress = False,
     is_connected = (\<lambda>i j. i = j),
     get_raw_unchecked = (\<lambda>a. if a = 20 then 40 else a),
     klass = (\<lambda>a. 900),
     external_name = (\<lambda>k. ''java.lang.Object''),
     obj_size = (\<lambda>a. if a = 48 then 30 else 2),
     os_print_location = (\<lambda>a. ''stack''),
     is_alive_non_header = 5,
     is_alive_closure = 7,
     addr_of_is_alive = 7,
     addr_of_forwarded_is_alive = 9,
     UseShenandoahMatrix = True,
     word_size = 1,
     humongous_threshold_words = 12,
     HeapWordSize = 8,
     required_regions = (\<lambda>bytes. (bytes + 127) div 128)\<rparr>"

text \<open>
  The same heap with every object 40 words long: the object at 48 then needs
  \<open>(41 * 8 + 127) div 128 = 3\<close> regions, 3 to 5, and region 5 is no continuation.
\<close>

definition heap_three_regions :: heap where
  "heap_three_regions = heap0\<lparr>obj_size := (\<lambda>a. 40)\<rparr>"

section \<open>Auxiliary facts\<close>

lemma andthen_simps [simp]:
  "andthen Returns rest = rest"
  "andthen (Calls_print_failure a b c d e f g i) rest = Calls_print_failure a b c d e f g i"
  "andthen (Calls_print_rp_failure l x y f' i') rest = Calls_print_rp_failure l x y f' i'"
  by (simp_all add: andthen_def)

lemma andthen_Returns_iff: "andthen a b = Returns \<longleftrightarrow> a = Returns \<and> b = Returns"
  by (cases a) simp_all

lemma andthen_not_Returns: "a \<noteq> Returns \<Longrightarrow> andthen a b = a"
  by (cases a) simp_all

lemma heap0_sel:
  "is_in heap0 = (\<lambda>a. 16 \<le> a \<and> a < 112)"
  "heap_region_containing heap0 = (\<lambda>a. 100 + a div 16)"
  "heap_region_index_containing heap0 = (\<lambda>a. a div 16)"
  "regions_get heap0 = (\<lambda>i. 100 + i)"
  "region_at heap0 = region0"
  "allocated_after_complete_mark_start heap0 = (\<lambda>a. False)"
  "allocated_after_next_mark_start heap0 = (\<lambda>a. False)"
  "is_marked_complete heap0 = (\<lambda>a. a = 20)"
  "is_marked_next heap0 = (\<lambda>a. False)"
  "in_collection_set heap0 = (\<lambda>a. a div 16 = 1)"
  "is_full_gc_move_in_progress heap0 = False"
  "is_connected heap0 = (\<lambda>i j. i = j)"
  "get_raw_unchecked heap0 = (\<lambda>a. if a = 20 then 40 else a)"
  "klass heap0 = (\<lambda>a. 900)"
  "external_name heap0 = (\<lambda>k. ''java.lang.Object'')"
  "obj_size heap0 = (\<lambda>a. if a = 48 then 30 else 2)"
  "os_print_location heap0 = (\<lambda>a. ''stack'')"
  "is_alive_non_header heap0 = 5"
  "is_alive_closure heap0 = 7"
  "addr_of_is_alive heap0 = 7"
  "addr_of_forwarded_is_alive heap0 = 9"
  "UseShenandoahMatrix heap0 = True"
  "word_size heap0 = 1"
  "humongous_threshold_words heap0 = 12"
  "HeapWordSize heap0 = 8"
  "required_regions heap0 = (\<lambda>bytes. (bytes + 127) div 128)"
  by (simp_all add: heap0_def)

lemma print_obj_eq: "print_obj h msg a = msg @ full_detail h a"
  by (simp add: print_obj_def full_detail_def msg_append_def Let_def)

lemma print_obj_safe_eq: "print_obj_safe h msg a = msg @ minimal_detail h a"
  by (simp add: print_obj_safe_def minimal_detail_def msg_append_def Let_def)

lemma pf_referenced_from_append:
  "pf_referenced_from h interior_loc loc b msg = msg @ pf_referenced_from h interior_loc loc b []"
  by (simp add: pf_referenced_from_def print_obj_eq print_non_obj_def msg_append_def Let_def)

lemma pf_object_eq: "pf_object h level obj msg = msg @ object_section_spec h level obj"
  by (simp add: pf_object_def object_section_spec_def print_obj_eq print_obj_safe_eq msg_append_def Let_def)

lemma pf_forwardee_eq: "pf_forwardee h level obj msg = msg @ forwardee_section_spec h level obj"
  by (auto simp add: pf_forwardee_def forwardee_section_spec_def print_obj_eq print_obj_safe_eq
      msg_append_def Let_def)

lemma pf_second_forwardee_eq:
  "pf_second_forwardee h level obj msg = msg @ second_forwardee_section_spec h level obj"
  by (auto simp add: pf_second_forwardee_def second_forwardee_section_spec_def print_obj_safe_eq
      msg_append_def Let_def)

lemma pf_matrix_eq:
  "pf_matrix h level obj interior_loc loc (loc \<noteq> NULL \<and> is_in h loc)
     (interior_loc \<noteq> NULL \<and> is_in h interior_loc) msg =
   msg @ matrix_section_spec h level obj interior_loc loc"
  by (simp add: pf_matrix_def matrix_section_spec_def msg_append_def Let_def)

lemma print_failure_sections:
  "err_msg (print_failure h level obj interior_loc loc phase label file line) =
     Heading phase label # pf_referenced_from h interior_loc loc (loc \<noteq> NULL \<and> is_in h loc) []
       @ object_section_spec h level obj @ forwardee_section_spec h level obj
       @ second_forwardee_section_spec h level obj
       @ matrix_section_spec h level obj interior_loc loc"
  unfolding print_failure_def Let_def report_vm_error_def pf_matrix_eq pf_second_forwardee_eq
    pf_forwardee_eq pf_object_eq
  by (subst pf_referenced_from_append) simp

lemma header_state_sel:
  "is_in (with_header_state h k n mc mn) = is_in h"
  "heap_region_containing (with_header_state h k n mc mn) = heap_region_containing h"
  "region_at (with_header_state h k n mc mn) = region_at h"
  "get_raw_unchecked (with_header_state h k n mc mn) = get_raw_unchecked h"
  by (simp_all add: with_header_state_def)

lemma minimal_detail_header_state:
  "minimal_detail (with_header_state h k n mc mn) a = minimal_detail h a"
  by (simp add: minimal_detail_def header_state_sel)

section \<open>The composite check\<close>

text \<open>
  Claim C1. \<^verbatim>\<open>assert_correct\<close> tries, in this order: the object is in the heap (else tier
  Unknown, "oop must point to a heap address"); its forwardee is in the heap (else tier
  ObjectSafe, "Forwardee must point to a heap address"); a forwarded object while a Full GC
  move is in progress (tier AllSafe); a forwarded object whose forwardee has the object's own
  region index (tier AllSafe, "Forwardee should be self, or another region"); a forwarded
  object whose forwardee is forwarded again (tier AllSafe, "Multiple forwardings"). The first
  condition that is violated decides the report, and the check returns exactly when none is.
\<close>

theorem assert_correct_order:
  "assert_correct h interior_loc obj file line = check_correct_spec h interior_loc obj file line
   \<and> (assert_correct h interior_loc obj file line = Returns \<longleftrightarrow>
        is_in h obj \<and> is_in h (get_raw_unchecked h obj)
        \<and> \<not> (get_raw_unchecked h obj \<noteq> obj \<and> is_full_gc_move_in_progress h)
        \<and> \<not> (get_raw_unchecked h obj \<noteq> obj \<and>
               heap_region_index_containing h (get_raw_unchecked h obj) =
               heap_region_index_containing h obj)
        \<and> \<not> (get_raw_unchecked h obj \<noteq> obj \<and>
               get_raw_unchecked h (get_raw_unchecked h obj) \<noteq> get_raw_unchecked h obj))"
  by (auto simp add: assert_correct_def check_correct_spec_def Let_def)

text \<open>
  The object at 20 forwarded to 24, an address of its own region 1: both addresses are in
  the heap and no Full GC move is in progress, so the same-region condition is the first
  violated one.
\<close>

theorem assert_correct_order_witness:
  "assert_correct (heap0\<lparr>get_raw_unchecked := (\<lambda>a. if a = 20 then 24 else a)\<rparr>) 0 20 ''f'' 1 =
     Calls_print_failure safe_all 20 0 0 ''Shenandoah assert_correct failed''
       ''Forwardee should be self, or another region'' ''f'' 1"
  using assert_correct_order
    [of "heap0\<lparr>get_raw_unchecked := (\<lambda>a. if a = 20 then 24 else a)\<rparr>" 0 20 "''f''" 1]
  by (simp add: check_correct_spec_def heap0_sel)

section \<open>The failure report\<close>

text \<open>
  Claim C3. In every report of \<^verbatim>\<open>print_failure\<close>, after the heading and the section
  "Referenced from" come: the section "Object", at full detail when the tier is at least
  ObjectSafe and otherwise the address with, if resolvable, the region summary; the section
  "Forwardee", present only from tier ObjectSafe on, saying "(the object itself)" for a
  self-forwarded object and else showing the forwardee at full detail from tier
  ObjectAndForwardeeSafe on and at minimal detail below; the section "Second forwardee",
  present only from tier ObjectAndForwardeeSafe on and only when the forwardee is forwarded
  again, at minimal detail. Below the tier that gates it, a section does not depend on the
  type descriptor or the mark bits of any object.
\<close>

theorem print_failure_tier_gated_sections:
  "err_msg (print_failure h level obj interior_loc loc phase label file line) =
     Heading phase label # pf_referenced_from h interior_loc loc (loc \<noteq> NULL \<and> is_in h loc) []
       @ object_section_spec h level obj @ forwardee_section_spec h level obj
       @ second_forwardee_section_spec h level obj
       @ pf_matrix h level obj interior_loc loc (loc \<noteq> NULL \<and> is_in h loc)
           (interior_loc \<noteq> NULL \<and> is_in h interior_loc) []
   \<and> (\<not> level_ge level safe_oop \<longrightarrow>
         pf_object (with_header_state h k n mc mn) level obj msg = pf_object h level obj msg)
   \<and> (\<not> level_ge level safe_oop_fwd \<longrightarrow>
         pf_forwardee (with_header_state h k n mc mn) level obj msg = pf_forwardee h level obj msg)
   \<and> pf_second_forwardee (with_header_state h k n mc mn) level obj msg =
       pf_second_forwardee h level obj msg"
proof (intro conjI impI)
  show "err_msg (print_failure h level obj interior_loc loc phase label file line) =
     Heading phase label # pf_referenced_from h interior_loc loc (loc \<noteq> NULL \<and> is_in h loc) []
       @ object_section_spec h level obj @ forwardee_section_spec h level obj
       @ second_forwardee_section_spec h level obj
       @ pf_matrix h level obj interior_loc loc (loc \<noteq> NULL \<and> is_in h loc)
           (interior_loc \<noteq> NULL \<and> is_in h interior_loc) []"
    by (simp only: print_failure_sections pf_matrix_eq append_Nil)
next
  assume "\<not> level_ge level safe_oop"
  then show "pf_object (with_header_state h k n mc mn) level obj msg = pf_object h level obj msg"
    by (simp add: pf_object_eq object_section_spec_def minimal_detail_header_state)
next
  assume "\<not> level_ge level safe_oop_fwd"
  then show "pf_forwardee (with_header_state h k n mc mn) level obj msg = pf_forwardee h level obj msg"
    by (simp add: pf_forwardee_eq forwardee_section_spec_def minimal_detail_header_state header_state_sel)
next
  show "pf_second_forwardee (with_header_state h k n mc mn) level obj msg =
       pf_second_forwardee h level obj msg"
    by (simp add: pf_second_forwardee_eq second_forwardee_section_spec_def
        minimal_detail_header_state header_state_sel)
qed

theorem print_failure_tier_gated_sections_witness:
  "\<not> level_ge safe_unknown safe_oop
   \<and> pf_object (with_header_state heap0 (\<lambda>a. 1) (\<lambda>a. ''x'') (\<lambda>a. True) (\<lambda>a. True)) safe_unknown 20 [] =
       pf_object heap0 safe_unknown 20 []
   \<and> \<not> level_ge safe_oop safe_oop_fwd
   \<and> pf_forwardee (with_header_state heap0 (\<lambda>a. 1) (\<lambda>a. ''x'') (\<lambda>a. True) (\<lambda>a. True)) safe_oop 20 [] =
       pf_forwardee heap0 safe_oop 20 []"
  using print_failure_tier_gated_sections
      [of heap0 safe_unknown 20 0 0 "''p''" "''l''" "''f''" 1
          "\<lambda>a. 1" "\<lambda>a. ''x''" "\<lambda>a. True" "\<lambda>a. True" "[]"]
    print_failure_tier_gated_sections
      [of heap0 safe_oop 20 0 0 "''p''" "''l''" "''f''" 1
          "\<lambda>a. 1" "\<lambda>a. ''x''" "\<lambda>a. True" "\<lambda>a. True" "[]"]
  by (simp add: level_ge_def)

text \<open>
  Claim C2, as stated, says that the object-detail block of the section "Referenced from" is
  gated by the tier. At tier Unknown, with the interior location 24 and the referring object
  at 20 in the heap, the report shows the type descriptor and the mark bits of the object at
  20 (the object under check, at 200, is printed without details).
\<close>

theorem referenced_from_not_tier_gated_counterexample:
  "\<not> level_ge safe_unknown safe_oop
   \<and> is_in heap0 20
   \<and> ObjKlass 20 (klass heap0 20) (external_name heap0 (klass heap0 20))
        \<in> set (err_msg (print_failure heap0 safe_unknown 200 24 20 ''p'' ''l'' ''f'' 1))
   \<and> MarkedComplete (is_marked_complete heap0 20)
        \<in> set (err_msg (print_failure heap0 safe_unknown 200 24 20 ''p'' ''l'' ''f'' 1))
   \<and> err_msg (print_failure heap0 safe_unknown 200 24 20 ''p'' ''l'' ''f'' 1) =
       [Heading ''p'' ''l'', Txt ''Referenced from:\<newline>'', InteriorLocation 24,
        ObjKlass 20 900 ''java.lang.Object'',
        AllocAfterCompleteMarkStart False, AllocAfterNextMarkStart False,
        MarkedComplete True, MarkedNext False, InCollectionSet True,
        RegionLine ''region'', Txt ''\<newline>'', Txt ''Object:\<newline>'', SafePrint 200,
        Txt ''\<newline>'']"
  by (simp add: print_failure_def pf_referenced_from_def pf_object_def pf_forwardee_def
      pf_second_forwardee_def pf_matrix_def print_obj_def print_obj_safe_def level_ge_def
      report_vm_error_def msg_append_def Let_def heap0_sel region0_def)

text \<open>
  Claim C2, amended. When an interior location is known and the referring location is not
  null and lies inside the heap, the section "Referenced from" shows the interior location
  and the object at the referring location at full detail (type descriptor, allocation
  flags, mark bits, collection-set membership, region), at every tier: the block is gated by
  the heap membership of the referring location, not by the tier.
\<close>

theorem referenced_from_full_detail:
  assumes "interior_loc \<noteq> NULL" and "loc \<noteq> NULL" and "is_in h loc"
  shows "err_msg (print_failure h level obj interior_loc loc phase label file line) =
      [Heading phase label, Txt ''Referenced from:\<newline>'', InteriorLocation interior_loc]
      @ full_detail h loc @ [Txt ''\<newline>'']
      @ object_section_spec h level obj @ forwardee_section_spec h level obj
      @ second_forwardee_section_spec h level obj
      @ matrix_section_spec h level obj interior_loc loc"
  using assms
  by (simp add: print_failure_sections pf_referenced_from_def print_obj_eq msg_append_def Let_def)

theorem referenced_from_full_detail_witness:
  "(24::nat) \<noteq> NULL \<and> (20::nat) \<noteq> NULL \<and> is_in heap0 20
   \<and> err_msg (print_failure heap0 safe_unknown 200 24 20 ''p'' ''l'' ''f'' 1) =
      [Heading ''p'' ''l'', Txt ''Referenced from:\<newline>'', InteriorLocation 24]
      @ full_detail heap0 20 @ [Txt ''\<newline>'']
      @ object_section_spec heap0 safe_unknown 200 @ forwardee_section_spec heap0 safe_unknown 200
      @ second_forwardee_section_spec heap0 safe_unknown 200
      @ matrix_section_spec heap0 safe_unknown 200 24 20"
proof -
  have a: "(24::nat) \<noteq> NULL" by simp
  have b: "(20::nat) \<noteq> NULL" by simp
  have c: "is_in heap0 20" by (simp add: heap0_sel)
  from referenced_from_full_detail [OF a b c] a b c show ?thesis by simp
qed

subsection \<open>The section "Matrix connections"\<close>

lemma sections_without_matrix:
  "pf_referenced_from (h\<lparr>UseShenandoahMatrix := u\<rparr>) interior_loc loc b [] =
     pf_referenced_from h interior_loc loc b []"
  "object_section_spec (h\<lparr>UseShenandoahMatrix := u\<rparr>) level obj = object_section_spec h level obj"
  "forwardee_section_spec (h\<lparr>UseShenandoahMatrix := u\<rparr>) level obj =
     forwardee_section_spec h level obj"
  "second_forwardee_section_spec (h\<lparr>UseShenandoahMatrix := u\<rparr>) level obj =
     second_forwardee_section_spec h level obj"
  by (simp_all add: pf_referenced_from_def print_obj_def print_non_obj_def object_section_spec_def
      forwardee_section_spec_def second_forwardee_section_spec_def full_detail_def
      minimal_detail_def msg_append_def Let_def)

lemma matrix_heading_not_elsewhere:
  "Txt ''Matrix connections:\<newline>'' \<notin> set (pf_referenced_from h interior_loc loc b [])"
  "Txt ''Matrix connections:\<newline>'' \<notin> set (object_section_spec h level obj)"
  "Txt ''Matrix connections:\<newline>'' \<notin> set (forwardee_section_spec h level obj)"
  "Txt ''Matrix connections:\<newline>'' \<notin> set (second_forwardee_section_spec h level obj)"
  by (simp_all add: pf_referenced_from_def print_obj_def print_non_obj_def object_section_spec_def
      forwardee_section_spec_def second_forwardee_section_spec_def full_detail_def
      minimal_detail_def msg_append_def Let_def)

lemma matrix_heading_in_section:
  "Txt ''Matrix connections:\<newline>'' \<in> set (matrix_section_spec h level obj interior_loc loc) \<longleftrightarrow>
     (loc \<noteq> NULL \<and> is_in h loc) \<and> UseShenandoahMatrix h \<and> level = safe_all"
  by (simp add: matrix_section_spec_def Let_def)

text \<open>
  Claim C4, as stated, makes the section appear exactly when the interior location lies in
  the heap, the matrix is enabled and the tier is AllSafe. With the interior location 24 in
  the heap, the matrix enabled, tier AllSafe and no referring location, the section is
  absent.
\<close>

theorem matrix_section_interior_counterexample:
  "is_in heap0 24 \<and> UseShenandoahMatrix heap0
   \<and> Txt ''Matrix connections:\<newline>''
       \<notin> set (err_msg (print_failure heap0 safe_all 20 24 0 ''p'' ''l'' ''f'' 1))"
  by (simp add: print_failure_sections matrix_heading_not_elsewhere matrix_section_spec_def
      heap0_sel)

text \<open>
  Claim C4, amended. The section "Matrix connections" is emitted, after everything else,
  exactly when the referring location is not null and lies in the heap, the connection
  matrix is enabled and the tier is AllSafe. It then reports adjacency for the four pairs
  of the regions of the referring location and its forwardee with the regions of the object
  and its forwardee, and two further pairs, of the interior location's region with the
  object's and with its forwardee's, exactly when the interior location is not null and
  lies in the heap.
\<close>

theorem matrix_section_gate:
  "err_msg (print_failure h level obj interior_loc loc phase label file line) =
     err_msg (print_failure (h\<lparr>UseShenandoahMatrix := False\<rparr>) level obj interior_loc loc
                phase label file line)
     @ matrix_section_spec h level obj interior_loc loc
   \<and> (Txt ''Matrix connections:\<newline>''
        \<in> set (err_msg (print_failure h level obj interior_loc loc phase label file line)) \<longleftrightarrow>
      (loc \<noteq> NULL \<and> is_in h loc) \<and> UseShenandoahMatrix h \<and> level = safe_all)
   \<and> length (matrix_section_spec h level obj interior_loc loc) =
      (if (loc \<noteq> NULL \<and> is_in h loc) \<and> UseShenandoahMatrix h \<and> level = safe_all then
         (if interior_loc \<noteq> NULL \<and> is_in h interior_loc then 7 else 5)
       else 0)"
proof (intro conjI)
  have "matrix_section_spec (h\<lparr>UseShenandoahMatrix := False\<rparr>) level obj interior_loc loc = []"
    by (simp add: matrix_section_spec_def)
  then show "err_msg (print_failure h level obj interior_loc loc phase label file line) =
     err_msg (print_failure (h\<lparr>UseShenandoahMatrix := False\<rparr>) level obj interior_loc loc
                phase label file line)
     @ matrix_section_spec h level obj interior_loc loc"
    by (simp add: print_failure_sections sections_without_matrix)
next
  show "Txt ''Matrix connections:\<newline>''
        \<in> set (err_msg (print_failure h level obj interior_loc loc phase label file line)) \<longleftrightarrow>
      (loc \<noteq> NULL \<and> is_in h loc) \<and> UseShenandoahMatrix h \<and> level = safe_all"
    using matrix_heading_in_section [of h level obj interior_loc loc]
    by (simp add: print_failure_sections matrix_heading_not_elsewhere)
next
  show "length (matrix_section_spec h level obj interior_loc loc) =
      (if (loc \<noteq> NULL \<and> is_in h loc) \<and> UseShenandoahMatrix h \<and> level = safe_all then
         (if interior_loc \<noteq> NULL \<and> is_in h interior_loc then 7 else 5)
       else 0)"
    by (simp add: matrix_section_spec_def Let_def)
qed

theorem matrix_section_gate_witness:
  "Txt ''Matrix connections:\<newline>''
     \<in> set (err_msg (print_failure heap0 safe_all 20 0 24 ''p'' ''l'' ''f'' 1))
   \<and> length (matrix_section_spec heap0 safe_all 20 0 24) = 5
   \<and> length (matrix_section_spec heap0 safe_all 20 28 24) = 7"
proof -
  note no_interior = matrix_section_gate [of heap0 safe_all 20 0 24 "''p''" "''l''" "''f''" 1]
  note interior = matrix_section_gate [of heap0 safe_all 20 28 24 "''p''" "''l''" "''f''" 1]
  from no_interior [THEN conjunct2, THEN conjunct1]
  have shown: "Txt ''Matrix connections:\<newline>''
     \<in> set (err_msg (print_failure heap0 safe_all 20 0 24 ''p'' ''l'' ''f'' 1))"
    by (simp add: heap0_sel)
  from no_interior [THEN conjunct2, THEN conjunct2]
  have four: "length (matrix_section_spec heap0 safe_all 20 0 24) = 5"
    by (simp add: heap0_sel)
  from interior [THEN conjunct2, THEN conjunct2]
  have six: "length (matrix_section_spec heap0 safe_all 20 28 24) = 7"
    by (simp add: heap0_sel)
  from shown four six show ?thesis by blast
qed

section \<open>The checks built on the composite check\<close>

subsection \<open>The loop over a humongous span\<close>

lemma chain_loop_Returns_iff:
  "chain_loop h interior_loc obj file line idx ixs = Returns \<longleftrightarrow>
     (\<forall>i\<in>set ixs. span_flag_ok h idx i)"
  by (induction ixs) (auto simp add: span_flag_ok_def Let_def andthen_Returns_iff)

lemma chain_loop_tail:
  "idx \<notin> set ixs \<Longrightarrow>
   chain_loop h interior_loc obj file line idx ixs = Returns \<or>
   chain_loop h interior_loc obj file line idx ixs =
     Calls_print_failure safe_oop obj interior_loc NULL ''Shenandoah assert_in_correct_region failed''
       ''Humongous continuation should be of proper size'' file line"
  by (induction ixs) (auto simp add: Let_def)

lemma chain_loop_cases:
  "chain_loop h interior_loc obj file line idx ixs = Returns \<or>
   chain_loop h interior_loc obj file line idx ixs =
     Calls_print_failure safe_unknown obj interior_loc NULL ''Shenandoah assert_in_correct_region failed''
       ''Object must reside in humongous start'' file line \<or>
   chain_loop h interior_loc obj file line idx ixs =
     Calls_print_failure safe_oop obj interior_loc NULL ''Shenandoah assert_in_correct_region failed''
       ''Humongous continuation should be of proper size'' file line"
  by (induction ixs) (auto simp add: Let_def)

lemma chain_loop_start_missing:
  assumes "0 < n" and "\<not> is_humongous_start (region_at h (regions_get h idx))"
  shows "chain_loop h interior_loc obj file line idx [idx ..< idx + n] =
     Calls_print_failure safe_unknown obj interior_loc NULL ''Shenandoah assert_in_correct_region failed''
       ''Object must reside in humongous start'' file line"
proof -
  from assms(1) have "[idx ..< idx + n] = idx # [Suc idx ..< idx + n]"
    by (simp add: upt_conv_Cons)
  with assms(2) show ?thesis by (simp add: Let_def)
qed

lemma chain_loop_continuation_missing:
  assumes "is_humongous_start (region_at h (regions_get h idx))"
    and "idx < i" and "i < idx + n"
    and "\<not> is_humongous_continuation (region_at h (regions_get h i))"
  shows "chain_loop h interior_loc obj file line idx [idx ..< idx + n] =
     Calls_print_failure safe_oop obj interior_loc NULL ''Shenandoah assert_in_correct_region failed''
       ''Humongous continuation should be of proper size'' file line"
proof -
  let ?rest = "[Suc idx ..< idx + n]"
  from assms(2,3) have split: "[idx ..< idx + n] = idx # ?rest"
    by (simp add: upt_conv_Cons)
  have "i \<in> set ?rest" using assms(2,3) by simp
  moreover have "\<not> span_flag_ok h idx i"
    using assms(2,4) by (simp add: span_flag_ok_def)
  ultimately have "chain_loop h interior_loc obj file line idx ?rest \<noteq> Returns"
    by (auto simp add: chain_loop_Returns_iff)
  moreover have "idx \<notin> set ?rest" by simp
  ultimately have "chain_loop h interior_loc obj file line idx ?rest =
     Calls_print_failure safe_oop obj interior_loc NULL ''Shenandoah assert_in_correct_region failed''
       ''Humongous continuation should be of proper size'' file line"
    using chain_loop_tail [of idx ?rest h interior_loc obj "file" "line"] by blast
  with assms(1) split show ?thesis by (simp add: Let_def)
qed

text \<open>
  Claim C5. For an object that passes \<^verbatim>\<open>assert_correct\<close>, \<^verbatim>\<open>assert_in_correct_region\<close>
  returns exactly when the containing region is active and, if the allocation size exceeds
  the humongous threshold, every index of the span carries its flag: the first
  humongous-start, each later one humongous-continuation, the span being the
  \<^verbatim>\<open>required_regions\<close> of the allocation size in bytes, from the region's number on.
  An inactive region, a missing start flag and a missing continuation flag each have their
  own label; the last is "Humongous continuation should be of proper size".
\<close>

theorem assert_in_correct_region_span:
  assumes "assert_correct h interior_loc obj file line = Returns"
  shows "(let r = region_at h (heap_region_containing h obj);
              alloc_size = obj_size h obj + word_size h;
              humongous = (alloc_size > humongous_threshold_words h);
              idx = region_number r;
              num_regions = required_regions h (alloc_size * HeapWordSize h);
              out = assert_in_correct_region h interior_loc obj file line;
              fail = (\<lambda>tier label. Calls_print_failure tier obj interior_loc NULL
                        ''Shenandoah assert_in_correct_region failed'' label file line)
          in (out = Returns \<longleftrightarrow>
                is_active r \<and>
                (humongous \<longrightarrow> (\<forall>i. idx \<le> i \<and> i < idx + num_regions \<longrightarrow> span_flag_ok h idx i)))
           \<and> (\<not> is_active r \<longrightarrow> out = fail safe_unknown ''Object must reside in active region'')
           \<and> (is_active r \<and> humongous \<and> 0 < num_regions \<and>
                \<not> is_humongous_start (region_at h (regions_get h idx)) \<longrightarrow>
                out = fail safe_unknown ''Object must reside in humongous start'')
           \<and> (is_active r \<and> humongous \<and> is_humongous_start (region_at h (regions_get h idx)) \<and>
                (\<exists>i. idx < i \<and> i < idx + num_regions \<and>
                     \<not> is_humongous_continuation (region_at h (regions_get h i))) \<longrightarrow>
                out = fail safe_oop ''Humongous continuation should be of proper size''))"
  using assms
  by (auto simp add: assert_in_correct_region_def Let_def chain_loop_Returns_iff
      chain_loop_start_missing chain_loop_continuation_missing)

text \<open>
  An object needing three regions whose third region lacks the continuation flag.
\<close>

theorem assert_in_correct_region_span_witness:
  "assert_correct heap_three_regions 0 48 ''f'' 1 = Returns
   \<and> assert_in_correct_region heap_three_regions 0 48 ''f'' 1 =
       Calls_print_failure safe_oop 48 0 0 ''Shenandoah assert_in_correct_region failed''
         ''Humongous continuation should be of proper size'' ''f'' 1"
proof -
  have ok: "assert_correct heap_three_regions 0 48 ''f'' 1 = Returns"
    by (simp add: assert_correct_def heap_three_regions_def heap0_sel Let_def)
  have ex: "\<exists>i. 3 < i \<and> i < 3 + 3 \<and>
      \<not> is_humongous_continuation (region_at heap_three_regions (regions_get heap_three_regions i))"
    by (rule exI [of _ 5]) (simp add: heap_three_regions_def heap0_sel region0_def)
  from assert_in_correct_region_span [OF ok] ex ok show ?thesis
    by (simp add: Let_def heap_three_regions_def heap0_sel region0_def)
qed

text \<open>
  Claim C6, as stated, asks that the tier handed to the reporter by a region check, after
  \<^verbatim>\<open>assert_correct\<close> has returned, be at least ObjectSafe. The source hands over
  \<^verbatim>\<open>_safe_unknown\<close> for an inactive region: the object at 84 lies in the inactive
  region 5.
\<close>

theorem assert_in_correct_region_tier_counterexample:
  "assert_correct heap0 0 84 ''f'' 1 = Returns
   \<and> assert_in_correct_region heap0 0 84 ''f'' 1 =
       Calls_print_failure safe_unknown 84 0 0 ''Shenandoah assert_in_correct_region failed''
         ''Object must reside in active region'' ''f'' 1
   \<and> \<not> level_ge safe_unknown safe_oop"
  by (simp add: assert_in_correct_region_def assert_correct_def heap0_sel region0_def Let_def
      level_ge_def)

text \<open>
  Claim C6, amended. Whenever \<^verbatim>\<open>assert_in_correct_region\<close> reports after
  \<^verbatim>\<open>assert_correct\<close> has returned, the tier is Unknown for an inactive region and for a
  missing humongous-start flag, and ObjectSafe for a missing humongous-continuation flag; it
  is never above ObjectSafe.
\<close>

theorem assert_in_correct_region_tiers:
  assumes "assert_correct h interior_loc obj file line = Returns"
    and "assert_in_correct_region h interior_loc obj file line =
           Calls_print_failure tier obj' interior_loc' loc' phase label file' line'"
  shows "level_ge safe_oop tier \<and>
         ((label = ''Object must reside in active region'' \<and> tier = safe_unknown) \<or>
          (label = ''Object must reside in humongous start'' \<and> tier = safe_unknown) \<or>
          (label = ''Humongous continuation should be of proper size'' \<and> tier = safe_oop))"
proof -
  let ?ixs = "[region_number (region_at h (heap_region_containing h obj)) ..<
               region_number (region_at h (heap_region_containing h obj)) +
               required_regions h ((obj_size h obj + word_size h) * HeapWordSize h)]"
  note cases = chain_loop_cases [of h interior_loc obj "file" "line"
      "region_number (region_at h (heap_region_containing h obj))" ?ixs]
  show ?thesis
    using assms cases
    by (auto simp add: assert_in_correct_region_def Let_def level_ge_def split: if_splits)
qed

theorem assert_in_correct_region_tiers_witness:
  "assert_correct heap_three_regions 0 48 ''f'' 1 = Returns
   \<and> assert_in_correct_region heap_three_regions 0 48 ''f'' 1 =
       Calls_print_failure safe_oop 48 0 0 ''Shenandoah assert_in_correct_region failed''
         ''Humongous continuation should be of proper size'' ''f'' 1
   \<and> level_ge safe_oop safe_oop"
proof -
  have ok: "assert_correct heap_three_regions 0 48 ''f'' 1 = Returns"
    by (simp add: assert_correct_def heap_three_regions_def heap0_sel Let_def)
  have out: "assert_in_correct_region heap_three_regions 0 48 ''f'' 1 =
       Calls_print_failure safe_oop 48 0 0 ''Shenandoah assert_in_correct_region failed''
         ''Humongous continuation should be of proper size'' ''f'' 1"
    by (simp add: assert_in_correct_region_def assert_correct_def heap_three_regions_def
        heap0_sel region0_def Let_def upt_conv_Cons)
  from assert_in_correct_region_tiers [OF ok out] ok out show ?thesis by simp
qed

text \<open>
  Claim C9. For an object that passes \<^verbatim>\<open>assert_correct\<close>, \<^verbatim>\<open>assert_forwarded\<close> reports,
  with "Object should be forwarded", exactly when the object is its own forwardee, and
  \<^verbatim>\<open>assert_not_forwarded\<close> reports, with "Object should not be forwarded", exactly when it
  is not.
\<close>

theorem forwarded_checks:
  assumes "assert_correct h interior_loc obj file line = Returns"
  shows "assert_forwarded h interior_loc obj file line =
           (if get_raw_unchecked h obj = obj then
              Calls_print_failure safe_all obj interior_loc NULL ''Shenandoah assert_forwarded failed''
                ''Object should be forwarded'' file line
            else Returns)
       \<and> assert_not_forwarded h interior_loc obj file line =
           (if get_raw_unchecked h obj \<noteq> obj then
              Calls_print_failure safe_all obj interior_loc NULL ''Shenandoah assert_not_forwarded failed''
                ''Object should not be forwarded'' file line
            else Returns)
       \<and> (assert_forwarded h interior_loc obj file line \<noteq> Returns \<longleftrightarrow> get_raw_unchecked h obj = obj)
       \<and> (assert_not_forwarded h interior_loc obj file line \<noteq> Returns \<longleftrightarrow>
            get_raw_unchecked h obj \<noteq> obj)"
  using assms by (auto simp add: assert_forwarded_def assert_not_forwarded_def Let_def)

theorem forwarded_checks_witness:
  "assert_correct heap0 0 64 ''f'' 1 = Returns
   \<and> assert_forwarded heap0 0 64 ''f'' 1 =
       Calls_print_failure safe_all 64 0 0 ''Shenandoah assert_forwarded failed''
         ''Object should be forwarded'' ''f'' 1
   \<and> assert_not_forwarded heap0 0 64 ''f'' 1 = Returns"
proof -
  have ok: "assert_correct heap0 0 64 ''f'' 1 = Returns"
    by (simp add: assert_correct_def heap0_sel Let_def)
  from forwarded_checks [OF ok] ok show ?thesis by (simp add: heap0_sel)
qed

text \<open>
  Claim C7. The object form \<^verbatim>\<open>assert_not_in_cset\<close> runs \<^verbatim>\<open>assert_correct\<close> first (a
  report of that check is the report of the whole) and then reports, at tier AllSafe with
  "Object should not be in collection set", exactly when the object is in the collection
  set. The location form \<^verbatim>\<open>assert_not_in_cset_loc\<close> tests the raw location only: its
  outcome is decided by collection-set membership of the location, it does not depend on
  anything \<^verbatim>\<open>assert_correct\<close> reads (heap membership, region index, the Full GC flag,
  the forwarding word), and the report it asks for does not read the forwarding word either.
\<close>

theorem not_in_cset_forms:
  "(assert_correct h interior_loc obj file line \<noteq> Returns \<longrightarrow>
      assert_not_in_cset h interior_loc obj file line = assert_correct h interior_loc obj file line)
   \<and> (assert_correct h interior_loc obj file line = Returns \<longrightarrow>
      assert_not_in_cset h interior_loc obj file line =
        (if in_collection_set h obj then
           Calls_print_failure safe_all obj interior_loc NULL ''Shenandoah assert_not_in_cset failed''
             ''Object should not be in collection set'' file line
         else Returns))
   \<and> assert_not_in_cset_loc h interior_loc file line =
        (if in_collection_set h interior_loc then
           Calls_print_failure safe_unknown NULL interior_loc NULL
             ''Shenandoah assert_not_in_cset_loc failed''
             ''Interior location should not be in collection set'' file line
         else Returns)
   \<and> assert_not_in_cset_loc
        (h\<lparr>is_in := m, heap_region_index_containing := ri, is_full_gc_move_in_progress := b,
           get_raw_unchecked := g\<rparr>) interior_loc file line =
      assert_not_in_cset_loc h interior_loc file line
   \<and> print_failure (h\<lparr>get_raw_unchecked := g\<rparr>) safe_unknown NULL interior_loc NULL phase label file line =
      print_failure h safe_unknown NULL interior_loc NULL phase label file line"
proof (intro conjI impI)
  assume "assert_correct h interior_loc obj file line \<noteq> Returns"
  then show "assert_not_in_cset h interior_loc obj file line = assert_correct h interior_loc obj file line"
    by (simp add: assert_not_in_cset_def andthen_not_Returns)
next
  assume "assert_correct h interior_loc obj file line = Returns"
  then show "assert_not_in_cset h interior_loc obj file line =
        (if in_collection_set h obj then
           Calls_print_failure safe_all obj interior_loc NULL ''Shenandoah assert_not_in_cset failed''
             ''Object should not be in collection set'' file line
         else Returns)"
    by (simp add: assert_not_in_cset_def)
next
  show "assert_not_in_cset_loc h interior_loc file line =
        (if in_collection_set h interior_loc then
           Calls_print_failure safe_unknown NULL interior_loc NULL
             ''Shenandoah assert_not_in_cset_loc failed''
             ''Interior location should not be in collection set'' file line
         else Returns)"
    by (simp add: assert_not_in_cset_loc_def)
next
  show "assert_not_in_cset_loc
        (h\<lparr>is_in := m, heap_region_index_containing := ri, is_full_gc_move_in_progress := b,
           get_raw_unchecked := g\<rparr>) interior_loc file line =
      assert_not_in_cset_loc h interior_loc file line"
    by (simp add: assert_not_in_cset_loc_def)
next
  show "print_failure (h\<lparr>get_raw_unchecked := g\<rparr>) safe_unknown NULL interior_loc NULL phase label file line =
      print_failure h safe_unknown NULL interior_loc NULL phase label file line"
    by (simp add: print_failure_def pf_referenced_from_def pf_object_def pf_forwardee_def
        pf_second_forwardee_def pf_matrix_def print_non_obj_def print_obj_safe_def level_ge_def
        Let_def)
qed

theorem not_in_cset_forms_witness:
  "assert_correct heap0 0 24 ''f'' 1 = Returns
   \<and> assert_not_in_cset heap0 0 24 ''f'' 1 =
       Calls_print_failure safe_all 24 0 0 ''Shenandoah assert_not_in_cset failed''
         ''Object should not be in collection set'' ''f'' 1
   \<and> assert_correct heap0 0 200 ''f'' 1 \<noteq> Returns
   \<and> assert_not_in_cset heap0 0 200 ''f'' 1 = assert_correct heap0 0 200 ''f'' 1"
proof -
  have ok: "assert_correct heap0 0 24 ''f'' 1 = Returns"
    by (simp add: assert_correct_def heap0_sel Let_def)
  have bad: "assert_correct heap0 0 200 ''f'' 1 \<noteq> Returns"
    by (simp add: assert_correct_def heap0_sel Let_def)
  from not_in_cset_forms [of heap0 0 24 "''f''" 1] not_in_cset_forms [of heap0 0 200 "''f''" 1]
    ok bad
  show ?thesis by (simp add: heap0_sel)
qed

text \<open>
  Claim C10. An object in the heap whose forwarding word points to itself passes
  \<^verbatim>\<open>assert_correct\<close>, whatever the Full GC flag, the region, the mark state and the
  collection set are.
\<close>

theorem self_forwarded_is_correct:
  "is_in h obj \<Longrightarrow> get_raw_unchecked h obj = obj \<Longrightarrow>
   assert_correct h interior_loc obj file line = Returns"
  by (simp add: assert_correct_def Let_def)

text \<open>
  A self-forwarded object in the collection set while a Full GC move is in progress.
\<close>

theorem self_forwarded_is_correct_witness:
  "is_in (heap0\<lparr>is_full_gc_move_in_progress := True\<rparr>) 24
   \<and> get_raw_unchecked (heap0\<lparr>is_full_gc_move_in_progress := True\<rparr>) 24 = 24
   \<and> is_full_gc_move_in_progress (heap0\<lparr>is_full_gc_move_in_progress := True\<rparr>)
   \<and> in_collection_set (heap0\<lparr>is_full_gc_move_in_progress := True\<rparr>) 24
   \<and> assert_correct (heap0\<lparr>is_full_gc_move_in_progress := True\<rparr>) 0 24 ''f'' 1 = Returns"
proof -
  have a: "is_in (heap0\<lparr>is_full_gc_move_in_progress := True\<rparr>) 24"
    by (simp add: heap0_sel)
  have b: "get_raw_unchecked (heap0\<lparr>is_full_gc_move_in_progress := True\<rparr>) 24 = 24"
    by (simp add: heap0_sel)
  from self_forwarded_is_correct [OF a b, of 0 "''f''" 1] a b show ?thesis
    by (simp add: heap0_sel)
qed

section \<open>The reference-processor checks\<close>

text \<open>
  Claim C8, as stated, says that the report of a reference-processor check holds just the
  two closure identities, actual and expected. The report of \<^verbatim>\<open>print_rp_failure\<close> has two
  more lines, the addresses of the heap's own \<^verbatim>\<open>_is_alive\<close> and
  \<^verbatim>\<open>_forwarded_is_alive\<close> closures.
\<close>

theorem rp_report_not_minimal_counterexample:
  "assert_rp_isalive_not_installed heap0 ''f'' 1 =
     Calls_print_rp_failure ''Shenandoah assert_rp_isalive_not_installed failed'' 5 0 ''f'' 1
   \<and> err_msg (print_rp_failure heap0 ''Shenandoah assert_rp_isalive_not_installed failed'' 5 0 ''f'' 1) \<noteq>
       minimal_rp_report ''Shenandoah assert_rp_isalive_not_installed failed'' 5 0
   \<and> err_msg (print_rp_failure heap0 ''Shenandoah assert_rp_isalive_not_installed failed'' 5 0 ''f'' 1) =
       [RpHeading ''Shenandoah assert_rp_isalive_not_installed failed'', RpActual 5, RpExpected 0,
        RpIsAlive 7, RpForwardedIsAlive 9]"
  by (simp add: assert_rp_isalive_not_installed_def print_rp_failure_def minimal_rp_report_def
      report_vm_error_def msg_append_def Let_def heap0_sel)

text \<open>
  Claim C8, amended. \<^verbatim>\<open>assert_rp_isalive_not_installed\<close> reports exactly when the reference
  processor's liveness closure is not null, \<^verbatim>\<open>assert_rp_isalive_installed\<close> exactly when
  it differs from the heap's closure; neither takes an object. The report holds the label,
  the actual and the expected closure, and the addresses of the heap's two liveness
  closures, and nothing about an object or a region.
\<close>

theorem rp_isalive_checks:
  "assert_rp_isalive_not_installed h file line =
     (if is_alive_non_header h \<noteq> NULL then
        Calls_print_rp_failure ''Shenandoah assert_rp_isalive_not_installed failed''
          (is_alive_non_header h) NULL file line
      else Returns)
   \<and> assert_rp_isalive_installed h file line =
     (if is_alive_non_header h \<noteq> is_alive_closure h then
        Calls_print_rp_failure ''Shenandoah assert_rp_isalive_installed failed''
          (is_alive_non_header h) (is_alive_closure h) file line
      else Returns)
   \<and> (assert_rp_isalive_not_installed h file line \<noteq> Returns \<longleftrightarrow> is_alive_non_header h \<noteq> NULL)
   \<and> (assert_rp_isalive_installed h file line \<noteq> Returns \<longleftrightarrow>
        is_alive_non_header h \<noteq> is_alive_closure h)
   \<and> err_msg (print_rp_failure h label actual expected file line) =
       minimal_rp_report label actual expected @
       [RpIsAlive (addr_of_is_alive h), RpForwardedIsAlive (addr_of_forwarded_is_alive h)]"
  by (simp add: assert_rp_isalive_not_installed_def assert_rp_isalive_installed_def
      print_rp_failure_def minimal_rp_report_def report_vm_error_def msg_append_def Let_def)

theorem rp_isalive_checks_witness:
  "assert_rp_isalive_not_installed heap0 ''f'' 1 =
     Calls_print_rp_failure ''Shenandoah assert_rp_isalive_not_installed failed'' 5 0 ''f'' 1
   \<and> assert_rp_isalive_installed heap0 ''f'' 1 =
     Calls_print_rp_failure ''Shenandoah assert_rp_isalive_installed failed'' 5 7 ''f'' 1"
  using rp_isalive_checks [of heap0 "''f''" 1]
  by (simp add: heap0_sel)

end
